theory Spec2Isabelle
  imports Main
begin

section \<open>Python values, exceptions and the class hierarchy\<close>

text \<open>
  The module \<^verbatim>\<open>datasets/inspect.py\<close> is glue code: every function calls one to three
  collaborators (the Hub client, the module factory, the builder loader, the streaming
  download manager) and reshapes what they return. The collaborators live outside the
  file; they are parameters of the model (record \<open>collaborators\<close> below). Whatever a
  collaborator does to the network, the file system, the caches or the console is a
  transition of an explicit state.
\<close>

text \<open>Dynamically typed arguments (configuration names, tokens, revisions, keyword values).\<close>

datatype pyval = PNone | PBool bool | PInt int | PStr string
  | PList "pyval list" | PDict "(string \<times> pyval) list"

text \<open>A keyword dictionary \<^verbatim>\<open>**kwargs\<close>, in insertion order.\<close>

type_synonym kwargs = "(string \<times> pyval) list"

text \<open>\<^verbatim>\<open>d.get(k, default)\<close>\<close>

definition dict_get :: "(string \<times> 'v) list \<Rightarrow> string \<Rightarrow> 'v \<Rightarrow> 'v" where
  "dict_get d k dflt = (case map_of d k of None \<Rightarrow> dflt | Some v \<Rightarrow> v)"

text \<open>\<^verbatim>\<open>d[k] = v\<close>: an existing key keeps its position, a new key goes last.\<close>

fun dict_setitem :: "('k \<times> 'v) list \<Rightarrow> 'k \<Rightarrow> 'v \<Rightarrow> ('k \<times> 'v) list" where
  "dict_setitem [] k v = [(k, v)]"
| "dict_setitem ((k', v') # d) k v =
     (if k' = k then (k, v) # d else (k', v') # dict_setitem d k v)"

text \<open>\<^verbatim>\<open>list(d.keys())\<close>\<close>

definition dict_keys :: "('k \<times> 'v) list \<Rightarrow> 'k list" where
  "dict_keys d = map fst d"

text \<open>
  The exception classes the module meets. \<open>SplitsNotFoundError\<close> is the one class the module
  declares (\<^verbatim>\<open>class SplitsNotFoundError(ValueError): pass\<close>); the others are built in.
  \<open>OtherException name\<close> stands for any further class derived from \<open>Exception\<close> that a
  collaborator may raise.
\<close>

datatype exn_class =
    BaseException | Exception | KeyboardInterrupt | SystemExit | GeneratorExit
  | TypeError | AttributeError | OSError | ConnectionError | FileNotFoundError
  | ValueError | SplitsNotFoundError | OtherException string

text \<open>The base named in each class statement.\<close>

fun base_class :: "exn_class \<Rightarrow> exn_class option" where
  "base_class BaseException = None"
| "base_class Exception = Some BaseException"
| "base_class KeyboardInterrupt = Some BaseException"
| "base_class SystemExit = Some BaseException"
| "base_class GeneratorExit = Some BaseException"
| "base_class TypeError = Some Exception"
| "base_class AttributeError = Some Exception"
| "base_class OSError = Some Exception"
| "base_class ConnectionError = Some OSError"
| "base_class FileNotFoundError = Some OSError"
| "base_class ValueError = Some Exception"
| "base_class SplitsNotFoundError = Some ValueError"
| "base_class (OtherException name) = Some Exception"

text \<open>Distance to the root of the hierarchy; it bounds the walk of \<open>issubclass\<close>.\<close>

fun class_depth :: "exn_class \<Rightarrow> nat" where
  "class_depth BaseException = 0"
| "class_depth Exception = 1"
| "class_depth KeyboardInterrupt = 1"
| "class_depth SystemExit = 1"
| "class_depth GeneratorExit = 1"
| "class_depth TypeError = 2"
| "class_depth AttributeError = 2"
| "class_depth OSError = 2"
| "class_depth ConnectionError = 3"
| "class_depth FileNotFoundError = 3"
| "class_depth ValueError = 2"
| "class_depth SplitsNotFoundError = 3"
| "class_depth (OtherException name) = 2"

function issubclass :: "exn_class \<Rightarrow> exn_class \<Rightarrow> bool" where
  "issubclass c d =
     (c = d \<or> (case base_class c of None \<Rightarrow> False | Some p \<Rightarrow> issubclass p d))"
  by pat_completeness auto
termination
proof (relation "measure (\<lambda>(c, d). class_depth c)")
  show "wf (measure (\<lambda>(c, d). class_depth c))" by simp
next
  fix c d :: exn_class and p
  assume "base_class c = Some p"
  then show "((p, d), (c, d)) \<in> measure (\<lambda>(c, d). class_depth c)"
    by (cases c) auto
qed

declare issubclass.simps [simp del]

text \<open>An exception object: its class, its message, and \<^verbatim>\<open>__cause__\<close> (set by \<^verbatim>\<open>raise ... from\<close>).\<close>

datatype exn = Exn (exn_cls: exn_class) (exn_msg: string) (exn_cause: "exn option")

definition isinstance :: "exn \<Rightarrow> exn_class \<Rightarrow> bool" where
  "isinstance e c = issubclass (exn_cls e) c"


section \<open>State and effects\<close>

text \<open>
  \<open>DownloadConfig\<close> objects are mutable and shared by reference, so they live in a store
  indexed by address. Of their fields the module touches only \<open>use_auth_token\<close>; the
  others are kept as a dictionary.
\<close>

type_synonym addr = nat

record DownloadConfig =
  use_auth_token :: pyval
  other_fields :: kwargs

text \<open>
  The state: the store of \<open>DownloadConfig\<close> objects, everything else the collaborators
  can read or change (network, file system, caches) as one opaque component, and the lines
  printed so far.
\<close>

record 'w st =
  heap :: "addr \<Rightarrow> DownloadConfig"
  world :: 'w
  stdout :: "string list"

text \<open>A computation either raises (\<open>Inl\<close>) or returns (\<open>Inr\<close>), and leaves a state behind.\<close>

type_synonym ('a, 'w) run = "'w st \<Rightarrow> (exn + 'a) \<times> 'w st"

definition ok :: "'a \<Rightarrow> ('a, 'w) run" where
  "ok x s = (Inr x, s)"

definition raise :: "exn \<Rightarrow> ('a, 'w) run" where
  "raise e s = (Inl e, s)"

text \<open>Sequencing: an exception of the first part skips the rest.\<close>

definition and_then :: "('a, 'w) run \<Rightarrow> ('a \<Rightarrow> ('b, 'w) run) \<Rightarrow> ('b, 'w) run" where
  "and_then m f s = (case m s of (Inl e, s') \<Rightarrow> (Inl e, s') | (Inr x, s') \<Rightarrow> f x s')"

text \<open>
  \<^verbatim>\<open>try: m  except Exception as err: h(err)\<close>: only instances of \<open>Exception\<close> reach the
  handler; any other exception leaves the statement as it is.
\<close>

definition try_except_Exception ::
  "('a, 'w) run \<Rightarrow> (exn \<Rightarrow> ('a, 'w) run) \<Rightarrow> ('a, 'w) run" where
  "try_except_Exception m h s =
     (case m s of
        (Inl err, s') \<Rightarrow> if isinstance err Exception then h err s' else (Inl err, s')
      | (Inr x, s') \<Rightarrow> (Inr x, s'))"

text \<open>\<^verbatim>\<open>print(msg)\<close>\<close>

definition print :: "string \<Rightarrow> (unit, 'w) run" where
  "print msg s = (Inr (), s\<lparr>stdout := stdout s @ [msg]\<rparr>)"

text \<open>
  A call \<^verbatim>\<open>f(k=..., **kw)\<close> with a key of \<open>kw\<close> among the keywords written out raises
  \<open>TypeError\<close> before \<open>f\<close> runs. The message names \<open>f\<close> with its module and quotes the key
  (\<open>CHR 0x27\<close> is the quote character).
\<close>

definition multiple_values :: "string \<Rightarrow> string \<Rightarrow> exn" where
  "multiple_values f k =
     Exn TypeError
       (f @ ''() got multiple values for keyword argument '' @ [CHR 0x27] @ k @ [CHR 0x27])
       None"

section \<open>The collaborators\<close>

datatype DownloadMode = REUSE_DATASET_IF_EXISTS | REUSE_CACHE_IF_EXISTS | FORCE_REDOWNLOAD

text \<open>An entry of the Hub catalog: \<open>hub_id\<close> is its \<^verbatim>\<open>.id\<close>.\<close>

record hub_entry =
  hub_id :: string
  hub_details :: kwargs

record DatasetModule =
  module_path :: string
  builder_kwargs :: kwargs

record MetricModule =
  metric_module_path :: string

text \<open>The builder class: \<open>builder_configs\<close> maps each declared configuration name to its configuration.\<close>

record builder_cls =
  builder_configs :: "(string \<times> kwargs) list"

text \<open>\<open>splits\<close> is \<open>None\<close> while unset, else a dictionary from split name to its metadata.\<close>

record DatasetInfo =
  description :: string
  splits :: "(string \<times> kwargs) list option"

record builder =
  info :: DatasetInfo
  base_path :: string
  streaming :: bool

record SplitGenerator =
  sg_name :: string
  gen_kwargs :: kwargs

record dl_manager =
  dlm_base_path :: string
  dlm_download_config :: addr

text \<open>
  The arguments of a call of a module factory. A keyword the call does not write is \<open>None\<close>
  or \<open>PNone\<close>, the callee's default; \<open>fc_overrides\<close> is the \<^verbatim>\<open>**download_kwargs\<close> part.
\<close>

record factory_call =
  fc_path :: string
  fc_revision :: pyval
  fc_download_config :: "addr option"
  fc_download_mode :: "DownloadMode option"
  fc_force_local_path :: "string option"
  fc_dynamic_modules_path :: "string option"
  fc_data_files :: pyval
  fc_overrides :: kwargs

text \<open>The arguments of a call of \<^verbatim>\<open>load_dataset_builder\<close>.\<close>

record builder_call =
  bc_path :: string
  bc_name :: pyval
  bc_data_files :: pyval
  bc_download_config :: "addr option"
  bc_download_mode :: "DownloadMode option"
  bc_revision :: pyval
  bc_use_auth_token :: pyval
  bc_overrides :: kwargs

text \<open>
  Everything the module imports and calls. \<open>extend_dataset_builder_for_streaming\<close> changes
  the builder in place; it returns the builder as changed. \<open>DownloadConfig_copy\<close> and
  \<open>DownloadConfig_init\<close> return the address of the object they make.
\<close>

record 'w collaborators =
  hub_list_datasets :: "bool \<Rightarrow> (hub_entry list, 'w) run"
  hub_list_metrics :: "(hub_entry list, 'w) run"
  dataset_module_factory :: "factory_call \<Rightarrow> (DatasetModule, 'w) run"
  metric_module_factory :: "factory_call \<Rightarrow> (MetricModule, 'w) run"
  import_main_class :: "string \<Rightarrow> (builder_cls, 'w) run"
  load_dataset_builder :: "builder_call \<Rightarrow> (builder, 'w) run"
  extend_dataset_builder_for_streaming :: "builder \<Rightarrow> pyval \<Rightarrow> (builder, 'w) run"
  DownloadConfig_copy :: "addr \<Rightarrow> (addr, 'w) run"
  DownloadConfig_init :: "(addr, 'w) run"
  StreamingDownloadManager :: "string \<Rightarrow> addr \<Rightarrow> (dl_manager, 'w) run"
  split_generators :: "builder \<Rightarrow> dl_manager \<Rightarrow> (SplitGenerator list, 'w) run"

section \<open>Listing the catalog\<close>

text \<open>\<^verbatim>\<open>list_datasets\<close> returns identifiers or full entries, depending on \<open>with_details\<close>.\<close>

datatype listing = Names "string list" | Details "hub_entry list"

text \<open>\<^verbatim>\<open>"/" not in dataset.id\<close> is \<open>CHR ''/'' \<notin> set (hub_id dataset)\<close>.\<close>

definition list_datasets :: "'w collaborators \<Rightarrow> bool \<Rightarrow> bool \<Rightarrow> (listing, 'w) run" where
  "list_datasets env with_community_datasets with_details =
     and_then (hub_list_datasets env with_details) (\<lambda>datasets.
       let datasets = (if \<not> with_community_datasets
                       then [dataset \<leftarrow> datasets. CHR ''/'' \<notin> set (hub_id dataset)]
                       else datasets)
       in if \<not> with_details then ok (Names (map hub_id datasets))
          else ok (Details datasets))"

definition list_metrics :: "'w collaborators \<Rightarrow> bool \<Rightarrow> bool \<Rightarrow> (listing, 'w) run" where
  "list_metrics env with_community_metrics with_details =
     and_then (hub_list_metrics env) (\<lambda>metrics.
       let metrics = (if \<not> with_community_metrics
                      then [metric \<leftarrow> metrics. CHR ''/'' \<notin> set (hub_id metric)]
                      else metrics)
       in if \<not> with_details then ok (Names (map hub_id metrics))
          else ok (Details metrics))"

section \<open>Copying a script for inspection\<close>

text \<open>
  The factory call of both inspection functions:
  \<^verbatim>\<open>(path, download_config=download_config, force_local_path=local_path, **download_kwargs)\<close>.
\<close>

definition forced_local_call :: "string \<Rightarrow> string \<Rightarrow> addr option \<Rightarrow> kwargs \<Rightarrow> factory_call" where
  "forced_local_call path local_path download_config download_kwargs =
     \<lparr>fc_path = path, fc_revision = PNone, fc_download_config = download_config,
      fc_download_mode = None, fc_force_local_path = Some local_path,
      fc_dynamic_modules_path = None, fc_data_files = PNone,
      fc_overrides = download_kwargs\<rparr>"

text \<open>The text \<^verbatim>\<open>inspect_dataset\<close> prints (an f-string).\<close>

definition inspect_dataset_message :: "string \<Rightarrow> string \<Rightarrow> string \<Rightarrow> string" where
  "inspect_dataset_message path local_path mpath =
     ''The processing script for dataset '' @ path @ '' can be inspected at '' @ local_path
     @ ''. '' @ ''The main class is in '' @ mpath @ ''. ''
     @ ''You can modify this processing script and use it with `datasets.load_dataset(''
     @ local_path @ '')`.''"

definition inspect_dataset ::
  "'w collaborators \<Rightarrow> string \<Rightarrow> string \<Rightarrow> addr option \<Rightarrow> kwargs \<Rightarrow> (unit, 'w) run" where
  "inspect_dataset env path local_path download_config download_kwargs =
     (if ''force_local_path'' \<in> set (dict_keys download_kwargs)
      then raise (multiple_values ''datasets.load.dataset_module_factory'' ''force_local_path'')
      else
        and_then (dataset_module_factory env
            (forced_local_call path local_path download_config download_kwargs))
          (\<lambda>dataset_module.
        print (inspect_dataset_message path local_path (module_path dataset_module))))"

definition inspect_metric_message :: "string \<Rightarrow> string \<Rightarrow> string \<Rightarrow> string" where
  "inspect_metric_message path local_path mpath =
     ''The processing scripts for metric '' @ path @ '' can be inspected at '' @ local_path
     @ ''. '' @ ''The main class is in '' @ mpath @ ''. ''
     @ ''You can modify this processing scripts and use it with `datasets.load_metric(''
     @ local_path @ '')`.''"

definition inspect_metric ::
  "'w collaborators \<Rightarrow> string \<Rightarrow> string \<Rightarrow> addr option \<Rightarrow> kwargs \<Rightarrow> (unit, 'w) run" where
  "inspect_metric env path local_path download_config download_kwargs =
     (if ''force_local_path'' \<in> set (dict_keys download_kwargs)
      then raise (multiple_values ''datasets.load.metric_module_factory'' ''force_local_path'')
      else
        and_then (metric_module_factory env
            (forced_local_call path local_path download_config download_kwargs))
          (\<lambda>metric_module.
        print (inspect_metric_message path local_path (metric_module_path metric_module))))"

section \<open>Configuration names\<close>

record names_args =
  cn_path :: string
  cn_revision :: pyval
  cn_download_config :: "addr option"
  cn_download_mode :: "DownloadMode option"
  cn_force_local_path :: "string option"
  cn_dynamic_modules_path :: "string option"
  cn_data_files :: pyval
  cn_download_kwargs :: kwargs

text \<open>
  The result is a list of Python values: the declared names are strings, the fallback is
  whatever \<^verbatim>\<open>builder_kwargs\<close> holds under \<^verbatim>\<open>"config_name"\<close>. An empty list is falsy, so
  \<^verbatim>\<open>or\<close> takes its right operand exactly when no configuration is declared.
\<close>

text \<open>The factory call of \<^verbatim>\<open>get_dataset_config_names\<close>: every parameter is passed on.\<close>

definition factory_call_of :: "names_args \<Rightarrow> factory_call" where
  "factory_call_of a =
     \<lparr>fc_path = cn_path a, fc_revision = cn_revision a,
      fc_download_config = cn_download_config a, fc_download_mode = cn_download_mode a,
      fc_force_local_path = cn_force_local_path a,
      fc_dynamic_modules_path = cn_dynamic_modules_path a,
      fc_data_files = cn_data_files a, fc_overrides = cn_download_kwargs a\<rparr>"

definition get_dataset_config_names :: "'w collaborators \<Rightarrow> names_args \<Rightarrow> (pyval list, 'w) run" where
  "get_dataset_config_names env a =
     and_then (dataset_module_factory env (factory_call_of a)) (\<lambda>dataset_module.
     and_then (import_main_class env (module_path dataset_module)) (\<lambda>builder_cls.
       let names = map PStr (dict_keys (builder_configs builder_cls))
       in if names \<noteq> [] then ok names
          else ok [dict_get (builder_kwargs dataset_module) ''config_name'' (PStr ''default'')]))"

section \<open>The info of one configuration\<close>

record info_args =
  ci_path :: string
  ci_config_name :: pyval
  ci_data_files :: pyval
  ci_download_config :: "addr option"
  ci_download_mode :: "DownloadMode option"
  ci_revision :: pyval
  ci_use_auth_token :: pyval
  ci_config_kwargs :: kwargs

text \<open>\<^verbatim>\<open>download_config.use_auth_token = tok\<close>, a write to the object at address \<open>c\<close>.\<close>

definition set_use_auth_token :: "addr \<Rightarrow> pyval \<Rightarrow> (unit, 'w) run" where
  "set_use_auth_token c tok s =
     (Inr (), s\<lparr>heap := (heap s)(c := (heap s c)\<lparr>use_auth_token := tok\<rparr>)\<rparr>)"

text \<open>
  The dictionary comprehension over the split generators, from an accumulator: a name met
  again overwrites its entry.
\<close>

fun splits_of :: "string \<Rightarrow> SplitGenerator list \<Rightarrow> (string \<times> kwargs) list \<Rightarrow> (string \<times> kwargs) list" where
  "splits_of path [] acc = acc"
| "splits_of path (split_generator # gens) acc =
     splits_of path gens
       (dict_setitem acc (sg_name split_generator)
          [(''name'', PStr (sg_name split_generator)), (''dataset_name'', PStr path)])"

text \<open>
  The body of the \<^verbatim>\<open>try\<close> statement. A \<open>DownloadConfig\<close> object is always truthy, so the
  conditional expression copies whenever an object was given.
\<close>

definition split_discovery ::
  "'w collaborators \<Rightarrow> info_args \<Rightarrow> builder \<Rightarrow> ((string \<times> kwargs) list, 'w) run" where
  "split_discovery env a b =
     and_then (case ci_download_config a of
                 Some p \<Rightarrow> DownloadConfig_copy env p
               | None \<Rightarrow> DownloadConfig_init env) (\<lambda>download_config.
     and_then (if ci_use_auth_token a \<noteq> PNone
               then set_use_auth_token download_config (ci_use_auth_token a)
               else ok ()) (\<lambda>_.
     and_then (StreamingDownloadManager env (base_path b) download_config) (\<lambda>dlm.
     and_then (split_generators env b dlm) (\<lambda>gens.
     ok (splits_of (ci_path a) gens [])))))"

definition splits_not_found :: "exn \<Rightarrow> exn" where
  "splits_not_found err =
     Exn SplitsNotFoundError ''The split names could not be parsed from the dataset config.''
       (Some err)"

text \<open>The call of \<^verbatim>\<open>load_dataset_builder\<close>: \<^verbatim>\<open>config_name\<close> goes to \<^verbatim>\<open>name\<close>, the rest is passed on.\<close>

definition builder_call_of :: "info_args \<Rightarrow> builder_call" where
  "builder_call_of a =
     \<lparr>bc_path = ci_path a, bc_name = ci_config_name a, bc_data_files = ci_data_files a,
      bc_download_config = ci_download_config a,
      bc_download_mode = ci_download_mode a, bc_revision = ci_revision a,
      bc_use_auth_token = ci_use_auth_token a,
      bc_overrides = ci_config_kwargs a\<rparr>"

definition get_dataset_config_info :: "'w collaborators \<Rightarrow> info_args \<Rightarrow> (DatasetInfo, 'w) run" where
  "get_dataset_config_info env a =
     (if ''name'' \<in> set (dict_keys (ci_config_kwargs a))
      then raise (multiple_values ''datasets.load.load_dataset_builder'' ''name'')
      else
        and_then (load_dataset_builder env (builder_call_of a)) (\<lambda>b0.
        and_then (extend_dataset_builder_for_streaming env b0 (ci_use_auth_token a)) (\<lambda>b.
          if splits (info b) = None
          then and_then
                 (try_except_Exception (split_discovery env a b)
                    (\<lambda>err. raise (splits_not_found err)))
                 (\<lambda>d. ok ((info b)\<lparr>splits := Some d\<rparr>))
          else ok (info b))))"

section \<open>Split names\<close>

text \<open>\<^verbatim>\<open>list(info.splits.keys())\<close>; on \<open>None\<close> the attribute lookup would raise.\<close>

definition get_dataset_split_names :: "'w collaborators \<Rightarrow> info_args \<Rightarrow> (string list, 'w) run" where
  "get_dataset_split_names env a =
     and_then (get_dataset_config_info env a) (\<lambda>info.
       case splits info of
         None \<Rightarrow> raise (Exn AttributeError
                   ''NoneType object has no attribute keys'' None)
       | Some d \<Rightarrow> ok (dict_keys d))"

section \<open>The infos of all configurations\<close>

record infos_args =
  di_path :: string
  di_data_files :: pyval
  di_download_config :: "addr option"
  di_download_mode :: "DownloadMode option"
  di_revision :: pyval
  di_use_auth_token :: pyval
  di_config_kwargs :: kwargs

text \<open>
  The call written in the comprehension, for one configuration name. \<^verbatim>\<open>config_name\<close> is
  written out as a keyword, so a \<^verbatim>\<open>config_name\<close> among \<^verbatim>\<open>**config_kwargs\<close> is a second
  value for it.
\<close>

definition info_call_of :: "infos_args \<Rightarrow> pyval \<Rightarrow> info_args" where
  "info_call_of a config_name =
     \<lparr>ci_path = di_path a, ci_config_name = config_name,
      ci_data_files = di_data_files a, ci_download_config = di_download_config a,
      ci_download_mode = di_download_mode a, ci_revision = di_revision a,
      ci_use_auth_token = di_use_auth_token a,
      ci_config_kwargs = di_config_kwargs a\<rparr>"

definition config_info_call :: "'w collaborators \<Rightarrow> infos_args \<Rightarrow> pyval \<Rightarrow> (DatasetInfo, 'w) run" where
  "config_info_call env a config_name =
     (if ''config_name'' \<in> set (dict_keys (di_config_kwargs a))
      then raise (multiple_values ''datasets.inspect.get_dataset_config_info'' ''config_name'')
      else get_dataset_config_info env (info_call_of a config_name))"

text \<open>The dictionary comprehension: one call per name, in order; an exception ends it.\<close>

fun infos_of ::
  "'w collaborators \<Rightarrow> infos_args \<Rightarrow> pyval list \<Rightarrow> (pyval \<times> DatasetInfo) list
     \<Rightarrow> ((pyval \<times> DatasetInfo) list, 'w) run" where
  "infos_of env a [] acc s = (Inr acc, s)"
| "infos_of env a (config_name # rest) acc s =
     (case config_info_call env a config_name s of
        (Inl e, s') \<Rightarrow> (Inl e, s')
      | (Inr i, s') \<Rightarrow> infos_of env a rest (dict_setitem acc config_name i) s')"

text \<open>
  The call of \<^verbatim>\<open>get_dataset_config_names\<close>: five keywords are written; the other
  parameters take the defaults of its signature (\<^verbatim>\<open>None\<close>, and no \<^verbatim>\<open>**download_kwargs\<close>).
  Neither \<^verbatim>\<open>use_auth_token\<close> nor \<^verbatim>\<open>**config_kwargs\<close> is passed.
\<close>

definition names_call_of :: "infos_args \<Rightarrow> names_args" where
  "names_call_of a =
     \<lparr>cn_path = di_path a, cn_revision = di_revision a,
      cn_download_config = di_download_config a, cn_download_mode = di_download_mode a,
      cn_force_local_path = None, cn_dynamic_modules_path = None,
      cn_data_files = di_data_files a, cn_download_kwargs = []\<rparr>"

definition get_dataset_infos ::
  "'w collaborators \<Rightarrow> infos_args \<Rightarrow> ((pyval \<times> DatasetInfo) list, 'w) run" where
  "get_dataset_infos env a =
     and_then (get_dataset_config_names env (names_call_of a)) (\<lambda>config_names.
     infos_of env a config_names [])"

text \<open>
  For comparison with the comprehension: the configurations looked up one after the other,
  each lookup starting in the state the one before left, the results collected in order.
\<close>

fun config_infos_in_turn ::
  "'w collaborators \<Rightarrow> infos_args \<Rightarrow> pyval list \<Rightarrow> (DatasetInfo list, 'w) run" where
  "config_infos_in_turn env a [] s = (Inr [], s)"
| "config_infos_in_turn env a (config_name # rest) s =
     (case get_dataset_config_info env (info_call_of a config_name) s of
        (Inl e, s') \<Rightarrow> (Inl e, s')
      | (Inr i, s') \<Rightarrow>
          (case config_infos_in_turn env a rest s' of
             (Inl e, s'') \<Rightarrow> (Inl e, s'')
           | (Inr is, s'') \<Rightarrow> (Inr (i # is), s'')))"


section \<open>Scenarios\<close>

text \<open>
  Concrete collaborators to run the functions on. The world is the list of local folders
  scripts were copied to. \<open>glue\<close> declares three configurations, \<open>rotten_tomatoes\<close> none,
  and the packaged module for \<open>data.csv\<close> records a configuration name in its builder
  keywords. Builders come with unset splits and three split generators.
\<close>

definition blank_config :: DownloadConfig where
  "blank_config = \<lparr>use_auth_token = PNone, other_fields = []\<rparr>"

definition demo_state :: "string list st" where
  "demo_state = \<lparr>heap = (\<lambda>_. blank_config), world = [], stdout = []\<rparr>"

definition copy_to :: "string option \<Rightarrow> string list st \<Rightarrow> string list st" where
  "copy_to dst s = (case dst of None \<Rightarrow> s | Some d \<Rightarrow> s\<lparr>world := d # world s\<rparr>)"

definition demo_env :: "string list collaborators" where
  "demo_env =
     \<lparr>hub_list_datasets = (\<lambda>full. ok
        [\<lparr>hub_id = ''glue'', hub_details = []\<rparr>,
         \<lparr>hub_id = ''lhoestq/squad'', hub_details = []\<rparr>,
         \<lparr>hub_id = ''rotten_tomatoes'', hub_details = []\<rparr>]),
      hub_list_metrics = ok
        [\<lparr>hub_id = ''accuracy'', hub_details = []\<rparr>,
         \<lparr>hub_id = ''user/my_metric'', hub_details = []\<rparr>],
      dataset_module_factory = (\<lambda>c s.
        if fc_path c = ''glue''
        then (Inr \<lparr>module_path = ''glue.py'', builder_kwargs = []\<rparr>,
              copy_to (fc_force_local_path c) s)
        else if fc_path c = ''rotten_tomatoes''
        then (Inr \<lparr>module_path = ''rotten_tomatoes.py'', builder_kwargs = []\<rparr>,
              copy_to (fc_force_local_path c) s)
        else if fc_path c = ''data.csv''
        then (Inr \<lparr>module_path = ''csv.py'',
                   builder_kwargs = [(''config_name'', PStr ''data'')]\<rparr>,
              copy_to (fc_force_local_path c) s)
        else (Inl (Exn FileNotFoundError ''no such dataset'' None), s)),
      metric_module_factory = (\<lambda>c s.
        if fc_path c = ''accuracy''
        then (Inr \<lparr>metric_module_path = ''accuracy.py''\<rparr>,
              copy_to (fc_force_local_path c) s)
        else (Inl (Exn FileNotFoundError ''no such metric'' None), s)),
      import_main_class = (\<lambda>mp. ok
        \<lparr>builder_configs =
           (if mp = ''glue.py'' then [(''cola'', []), (''sst2'', []), (''mrpc'', [])]
            else [])\<rparr>),
      load_dataset_builder = (\<lambda>c. ok
        \<lparr>info = \<lparr>description = bc_path c, splits = None\<rparr>,
         base_path = bc_path c, streaming = False\<rparr>),
      extend_dataset_builder_for_streaming = (\<lambda>b tok. ok (b\<lparr>streaming := True\<rparr>)),
      DownloadConfig_copy = (\<lambda>p s. (Inr (Suc p), s\<lparr>heap := (heap s)(Suc p := heap s p)\<rparr>)),
      DownloadConfig_init = (\<lambda>s. (Inr 0, s\<lparr>heap := (heap s)(0 := blank_config)\<rparr>)),
      StreamingDownloadManager = (\<lambda>bp c. ok \<lparr>dlm_base_path = bp, dlm_download_config = c\<rparr>),
      split_generators = (\<lambda>b d. ok
        [\<lparr>sg_name = ''train'', gen_kwargs = []\<rparr>,
         \<lparr>sg_name = ''validation'', gen_kwargs = []\<rparr>,
         \<lparr>sg_name = ''test'', gen_kwargs = []\<rparr>])\<rparr>"

text \<open>The network is down while the split generators are enumerated.\<close>

definition offline :: exn where
  "offline = Exn ConnectionError ''network unreachable'' None"

definition offline_env :: "string list collaborators" where
  "offline_env = demo_env\<lparr>split_generators := (\<lambda>b d. raise offline)\<rparr>"

text \<open>The user interrupts the enumeration of the split generators.\<close>

definition interrupt :: exn where
  "interrupt = Exn KeyboardInterrupt [] None"

definition interrupted_env :: "string list collaborators" where
  "interrupted_env = demo_env\<lparr>split_generators := (\<lambda>b d. raise interrupt)\<rparr>"

text \<open>The builder's info already holds its splits.\<close>

definition prepared_env :: "string list collaborators" where
  "prepared_env = demo_env\<lparr>load_dataset_builder := (\<lambda>c. ok
     \<lparr>info = \<lparr>description = bc_path c, splits = Some [(''train'', [])]\<rparr>,
      base_path = bc_path c, streaming = False\<rparr>)\<rparr>"

text \<open>The builder of configuration \<open>sst2\<close> cannot be loaded.\<close>

definition flaky_env :: "string list collaborators" where
  "flaky_env = demo_env\<lparr>load_dataset_builder := (\<lambda>c.
     if bc_name c = PStr ''sst2'' then raise offline
     else ok \<lparr>info = \<lparr>description = bc_path c, splits = None\<rparr>,
              base_path = bc_path c, streaming = False\<rparr>)\<rparr>"

definition demo_info_args :: "string \<Rightarrow> pyval \<Rightarrow> addr option \<Rightarrow> pyval \<Rightarrow> info_args" where
  "demo_info_args path config_name download_config tok =
     \<lparr>ci_path = path, ci_config_name = config_name, ci_data_files = PNone,
      ci_download_config = download_config, ci_download_mode = None, ci_revision = PNone,
      ci_use_auth_token = tok, ci_config_kwargs = []\<rparr>"

definition demo_names_args :: "string \<Rightarrow> names_args" where
  "demo_names_args path =
     \<lparr>cn_path = path, cn_revision = PNone, cn_download_config = None,
      cn_download_mode = None, cn_force_local_path = None, cn_dynamic_modules_path = None,
      cn_data_files = PNone, cn_download_kwargs = []\<rparr>"

definition demo_infos_args :: "string \<Rightarrow> infos_args" where
  "demo_infos_args path =
     \<lparr>di_path = path, di_data_files = PNone, di_download_config = None,
      di_download_mode = None, di_revision = PNone, di_use_auth_token = PNone,
      di_config_kwargs = []\<rparr>"

text \<open>
  A Hub that resolves by the token among the factory's keyword overrides: \<open>org/private\<close> is
  found only with the token, and \<open>org/gated\<close> shows one configuration to anonymous
  callers and another to the token's holder.
\<close>

definition has_token :: "factory_call \<Rightarrow> bool" where
  "has_token c = (map_of (fc_overrides c) ''use_auth_token'' = Some (PStr ''hf_token''))"

definition token_env :: "string list collaborators" where
  "token_env = demo_env
     \<lparr>dataset_module_factory := (\<lambda>c s.
        if fc_path c = ''org/private''
        then (if has_token c
              then (Inr \<lparr>module_path = ''private.py'', builder_kwargs = []\<rparr>, s)
              else (Inl (Exn FileNotFoundError ''no such dataset'' None), s))
        else if fc_path c = ''org/gated''
        then (if has_token c
              then (Inr \<lparr>module_path = ''full.py'', builder_kwargs = []\<rparr>, s)
              else (Inr \<lparr>module_path = ''preview.py'', builder_kwargs = []\<rparr>, s))
        else (Inl (Exn FileNotFoundError ''no such dataset'' None), s)),
      import_main_class := (\<lambda>mp. ok
        \<lparr>builder_configs =
           (if mp = ''full.py'' then [(''full'', [])]
            else if mp = ''preview.py'' then [(''preview'', [])]
            else [])\<rparr>)\<rparr>"

text \<open>The same token given to the enumeration (a download keyword) and to the infos.\<close>

definition token_names_args :: "string \<Rightarrow> names_args" where
  "token_names_args path =
     \<lparr>cn_path = path, cn_revision = PNone, cn_download_config = None,
      cn_download_mode = None, cn_force_local_path = None, cn_dynamic_modules_path = None,
      cn_data_files = PNone, cn_download_kwargs = [(''use_auth_token'', PStr ''hf_token'')]\<rparr>"

definition token_infos_args :: "string \<Rightarrow> infos_args" where
  "token_infos_args path =
     \<lparr>di_path = path, di_data_files = PNone, di_download_config = None,
      di_download_mode = None, di_revision = PNone, di_use_auth_token = PStr ''hf_token'',
      di_config_kwargs = []\<rparr>"


text \<open>What the scenario's lookups return, and the state they leave.\<close>

definition demo_info :: "string \<Rightarrow> DatasetInfo" where
  "demo_info path =
     \<lparr>description = path,
      splits = Some
        [(''train'', [(''name'', PStr ''train''), (''dataset_name'', PStr path)]),
         (''validation'', [(''name'', PStr ''validation''), (''dataset_name'', PStr path)]),
         (''test'', [(''name'', PStr ''test''), (''dataset_name'', PStr path)])]\<rparr>"

definition demo_state_after :: "string list st" where
  "demo_state_after = demo_state\<lparr>heap := (heap demo_state)(0 := blank_config)\<rparr>"

section \<open>Properties of the listings\<close>

lemma list_datasets_Inr:
  assumes "hub_list_datasets env with_details s = (Inr cat, s')"
  shows "list_datasets env with_community with_details s =
           (Inr (if with_details
                 then Details [e \<leftarrow> cat. with_community \<or> CHR ''/'' \<notin> set (hub_id e)]
                 else Names (map hub_id
                        [e \<leftarrow> cat. with_community \<or> CHR ''/'' \<notin> set (hub_id e)])),
            s')"
  using assms by (simp add: list_datasets_def and_then_def ok_def)

lemma list_metrics_Inr:
  assumes "hub_list_metrics env s = (Inr cat, s')"
  shows "list_metrics env with_community with_details s =
           (Inr (if with_details
                 then Details [e \<leftarrow> cat. with_community \<or> CHR ''/'' \<notin> set (hub_id e)]
                 else Names (map hub_id
                        [e \<leftarrow> cat. with_community \<or> CHR ''/'' \<notin> set (hub_id e)])),
            s')"
  using assms by (simp add: list_metrics_def and_then_def ok_def)

text \<open>
  C5. Let the Hub answer with the catalog \<open>cat\<close> (datasets) and \<open>mcat\<close> (metrics). Then
  \<^verbatim>\<open>list_datasets\<close> and \<^verbatim>\<open>list_metrics\<close> return the entries kept, in catalog order, where
  every entry is kept when community entries are included and otherwise exactly those
  whose identifier holds no \<^verbatim>\<open>/\<close>. Without details the result is the list of their bare
  identifiers, with details it is the list of the full entries. So with community entries
  excluded no returned identifier holds a \<^verbatim>\<open>/\<close>. The dataset catalog is asked for with
  \<^verbatim>\<open>full=with_details\<close>.
\<close>

theorem list_datasets_filters_and_projects:
  assumes "hub_list_datasets env with_details s = (Inr cat, s1)"
      and "hub_list_metrics env s = (Inr mcat, s2)"
  shows "let kept = [e \<leftarrow> cat. with_community \<or> CHR ''/'' \<notin> set (hub_id e)];
             mkept = [e \<leftarrow> mcat. with_community \<or> CHR ''/'' \<notin> set (hub_id e)]
         in list_datasets env with_community with_details s =
              (Inr (if with_details then Details kept else Names (map hub_id kept)), s1) \<and>
            list_metrics env with_community with_details s =
              (Inr (if with_details then Details mkept else Names (map hub_id mkept)), s2) \<and>
            (with_community \<longrightarrow> kept = cat \<and> mkept = mcat) \<and>
            (\<not> with_community \<longrightarrow>
               (\<forall>i \<in> set (map hub_id kept) \<union> set (map hub_id mkept). CHR ''/'' \<notin> set i))"
  unfolding Let_def list_datasets_Inr[OF assms(1)] list_metrics_Inr[OF assms(2)]
  by auto

theorem list_datasets_filters_and_projects_witness:
  "list_datasets demo_env False False demo_state =
     (Inr (Names [''glue'', ''rotten_tomatoes'']), demo_state) \<and>
   list_metrics demo_env False False demo_state = (Inr (Names [''accuracy'']), demo_state)"
proof -
  have d: "hub_list_datasets demo_env False demo_state =
     (Inr [\<lparr>hub_id = ''glue'', hub_details = []\<rparr>,
           \<lparr>hub_id = ''lhoestq/squad'', hub_details = []\<rparr>,
           \<lparr>hub_id = ''rotten_tomatoes'', hub_details = []\<rparr>], demo_state)"
    by (simp add: demo_env_def ok_def)
  have m: "hub_list_metrics demo_env demo_state =
     (Inr [\<lparr>hub_id = ''accuracy'', hub_details = []\<rparr>,
           \<lparr>hub_id = ''user/my_metric'', hub_details = []\<rparr>], demo_state)"
    by (simp add: demo_env_def ok_def)
  from list_datasets_filters_and_projects[OF d m, of False]
  show ?thesis by (simp add: Let_def)
qed

section \<open>Properties of the info of one configuration\<close>


lemma get_dataset_config_info_built:
  assumes "''name'' \<notin> set (dict_keys (ci_config_kwargs a))"
      and "load_dataset_builder env (builder_call_of a) s = (Inr b0, s1)"
      and "extend_dataset_builder_for_streaming env b0 (ci_use_auth_token a) s1 = (Inr b, s2)"
  shows "get_dataset_config_info env a s =
           (if splits (info b) = None
            then (case split_discovery env a b s2 of
                    (Inl err, s3) \<Rightarrow>
                      (if isinstance err Exception then Inl (splits_not_found err) else Inl err, s3)
                  | (Inr d, s3) \<Rightarrow> (Inr ((info b)\<lparr>splits := Some d\<rparr>), s3))
            else (Inr (info b), s2))"
  using assms
  by (simp add: get_dataset_config_info_def and_then_def try_except_Exception_def ok_def
      raise_def split: prod.splits sum.splits)

lemma get_dataset_config_info_Inr:
  assumes "get_dataset_config_info env a s = (Inr i, s')"
  shows "\<exists>b0 s1 b s2.
           ''name'' \<notin> set (dict_keys (ci_config_kwargs a)) \<and>
           load_dataset_builder env (builder_call_of a) s = (Inr b0, s1) \<and>
           extend_dataset_builder_for_streaming env b0 (ci_use_auth_token a) s1 = (Inr b, s2) \<and>
           (if splits (info b) = None
            then \<exists>d. split_discovery env a b s2 = (Inr d, s') \<and> i = (info b)\<lparr>splits := Some d\<rparr>
            else i = info b \<and> s' = s2)"
proof -
  have nk: "''name'' \<notin> set (dict_keys (ci_config_kwargs a))"
    using assms by (auto simp: get_dataset_config_info_def raise_def split: if_splits)
  obtain r1 s1 where l: "load_dataset_builder env (builder_call_of a) s = (r1, s1)"
    by (cases "load_dataset_builder env (builder_call_of a) s")
  obtain b0 where r1: "r1 = Inr b0"
    using assms nk l by (cases r1) (auto simp: get_dataset_config_info_def and_then_def)
  obtain r2 s2 where
    e: "extend_dataset_builder_for_streaming env b0 (ci_use_auth_token a) s1 = (r2, s2)"
    by (cases "extend_dataset_builder_for_streaming env b0 (ci_use_auth_token a) s1")
  obtain b where r2: "r2 = Inr b"
    using assms nk l r1 e by (cases r2) (auto simp: get_dataset_config_info_def and_then_def)
  have "(if splits (info b) = None
         then \<exists>d. split_discovery env a b s2 = (Inr d, s') \<and> i = (info b)\<lparr>splits := Some d\<rparr>
         else i = info b \<and> s' = s2)"
    using assms get_dataset_config_info_built[OF nk l[unfolded r1] e[unfolded r2]]
    by (auto split: prod.splits sum.splits if_splits)
  with nk l r1 e r2 show ?thesis by blast
qed

lemma split_discovery_Inl_iff:
  "split_discovery env a b s = (Inl err, s') \<longleftrightarrow>
     (case ci_download_config a of Some p \<Rightarrow> DownloadConfig_copy env p
        | None \<Rightarrow> DownloadConfig_init env) s = (Inl err, s') \<or>
     (\<exists>c sc. (case ci_download_config a of Some p \<Rightarrow> DownloadConfig_copy env p
                | None \<Rightarrow> DownloadConfig_init env) s = (Inr c, sc) \<and>
        (StreamingDownloadManager env (base_path b) c
           (if ci_use_auth_token a \<noteq> PNone
            then sc\<lparr>heap := (heap sc)(c := (heap sc c)\<lparr>use_auth_token := ci_use_auth_token a\<rparr>)\<rparr>
            else sc) = (Inl err, s') \<or>
         (\<exists>dlm sd. StreamingDownloadManager env (base_path b) c
           (if ci_use_auth_token a \<noteq> PNone
            then sc\<lparr>heap := (heap sc)(c := (heap sc c)\<lparr>use_auth_token := ci_use_auth_token a\<rparr>)\<rparr>
            else sc) = (Inr dlm, sd) \<and>
            split_generators env b dlm sd = (Inl err, s'))))"
  by (auto simp: split_discovery_def and_then_def ok_def set_use_auth_token_def
      split: prod.splits sum.splits)

text \<open>
  C2 (amended). Let no keyword of \<^verbatim>\<open>**config_kwargs\<close> be \<^verbatim>\<open>name\<close>. An exception of
  \<^verbatim>\<open>load_dataset_builder\<close> or of the streaming adaptation leaves
  \<^verbatim>\<open>get_dataset_config_info\<close> unchanged. With the builder's splits unset, let \<open>err\<close> be raised
  in the split-discovery step: by copying or creating the download configuration, by
  constructing the streaming download manager, or by enumerating the split generators. If
  \<open>err\<close> is an instance of \<open>Exception\<close>, the call raises \<open>SplitsNotFoundError\<close> with the
  fixed message and \<open>err\<close> as its cause; if it is not (\<open>KeyboardInterrupt\<close>, \<open>SystemExit\<close>,
  \<open>GeneratorExit\<close>), \<open>err\<close> itself leaves the call.
\<close>

theorem split_discovery_failure_translated:
  assumes "''name'' \<notin> set (dict_keys (ci_config_kwargs a))"
  shows "(\<forall>e s1. load_dataset_builder env (builder_call_of a) s = (Inl e, s1) \<longrightarrow>
            get_dataset_config_info env a s = (Inl e, s1)) \<and>
         (\<forall>b0 s1 e s2.
            load_dataset_builder env (builder_call_of a) s = (Inr b0, s1) \<and>
            extend_dataset_builder_for_streaming env b0 (ci_use_auth_token a) s1 = (Inl e, s2) \<longrightarrow>
            get_dataset_config_info env a s = (Inl e, s2)) \<and>
         (\<forall>b0 s1 b s2 err s3.
            load_dataset_builder env (builder_call_of a) s = (Inr b0, s1) \<and>
            extend_dataset_builder_for_streaming env b0 (ci_use_auth_token a) s1 = (Inr b, s2) \<and>
            splits (info b) = None \<and>
            ((case ci_download_config a of Some p \<Rightarrow> DownloadConfig_copy env p
                | None \<Rightarrow> DownloadConfig_init env) s2 = (Inl err, s3) \<or>
             (\<exists>c sc. (case ci_download_config a of Some p \<Rightarrow> DownloadConfig_copy env p
                        | None \<Rightarrow> DownloadConfig_init env) s2 = (Inr c, sc) \<and>
                (StreamingDownloadManager env (base_path b) c
                   (if ci_use_auth_token a \<noteq> PNone
                    then sc\<lparr>heap := (heap sc)
                            (c := (heap sc c)\<lparr>use_auth_token := ci_use_auth_token a\<rparr>)\<rparr>
                    else sc) = (Inl err, s3) \<or>
                 (\<exists>dlm sd. StreamingDownloadManager env (base_path b) c
                   (if ci_use_auth_token a \<noteq> PNone
                    then sc\<lparr>heap := (heap sc)
                            (c := (heap sc c)\<lparr>use_auth_token := ci_use_auth_token a\<rparr>)\<rparr>
                    else sc) = (Inr dlm, sd) \<and>
                    split_generators env b dlm sd = (Inl err, s3))))) \<longrightarrow>
            get_dataset_config_info env a s =
              (if isinstance err Exception
               then Inl (Exn SplitsNotFoundError
                      ''The split names could not be parsed from the dataset config.''
                      (Some err))
               else Inl err, s3))"
proof (intro conjI allI impI)
  fix e s1
  assume "load_dataset_builder env (builder_call_of a) s = (Inl e, s1)"
  with assms show "get_dataset_config_info env a s = (Inl e, s1)"
    by (simp add: get_dataset_config_info_def and_then_def)
next
  fix b0 s1 e s2
  assume "load_dataset_builder env (builder_call_of a) s = (Inr b0, s1) \<and>
          extend_dataset_builder_for_streaming env b0 (ci_use_auth_token a) s1 = (Inl e, s2)"
  with assms show "get_dataset_config_info env a s = (Inl e, s2)"
    by (simp add: get_dataset_config_info_def and_then_def)
next
  fix b0 s1 b s2 err s3
  assume h: "load_dataset_builder env (builder_call_of a) s = (Inr b0, s1) \<and>
            extend_dataset_builder_for_streaming env b0 (ci_use_auth_token a) s1 = (Inr b, s2) \<and>
            splits (info b) = None \<and>
            ((case ci_download_config a of Some p \<Rightarrow> DownloadConfig_copy env p
                | None \<Rightarrow> DownloadConfig_init env) s2 = (Inl err, s3) \<or>
             (\<exists>c sc. (case ci_download_config a of Some p \<Rightarrow> DownloadConfig_copy env p
                        | None \<Rightarrow> DownloadConfig_init env) s2 = (Inr c, sc) \<and>
                (StreamingDownloadManager env (base_path b) c
                   (if ci_use_auth_token a \<noteq> PNone
                    then sc\<lparr>heap := (heap sc)
                            (c := (heap sc c)\<lparr>use_auth_token := ci_use_auth_token a\<rparr>)\<rparr>
                    else sc) = (Inl err, s3) \<or>
                 (\<exists>dlm sd. StreamingDownloadManager env (base_path b) c
                   (if ci_use_auth_token a \<noteq> PNone
                    then sc\<lparr>heap := (heap sc)
                            (c := (heap sc c)\<lparr>use_auth_token := ci_use_auth_token a\<rparr>)\<rparr>
                    else sc) = (Inr dlm, sd) \<and>
                    split_generators env b dlm sd = (Inl err, s3)))))"
  then have d: "split_discovery env a b s2 = (Inl err, s3)"
    unfolding split_discovery_Inl_iff by blast
  from h have l: "load_dataset_builder env (builder_call_of a) s = (Inr b0, s1)"
    and e: "extend_dataset_builder_for_streaming env b0 (ci_use_auth_token a) s1 = (Inr b, s2)"
    and n: "splits (info b) = None" by blast+
  show "get_dataset_config_info env a s =
              (if isinstance err Exception
               then Inl (Exn SplitsNotFoundError
                      ''The split names could not be parsed from the dataset config.''
                      (Some err))
               else Inl err, s3)"
    using get_dataset_config_info_built[OF assms l e] n d
    by (simp add: splits_not_found_def)
qed


theorem split_discovery_failure_translated_witness:
  "get_dataset_config_info offline_env
      (demo_info_args ''rotten_tomatoes'' PNone None PNone) demo_state =
     (Inl (Exn SplitsNotFoundError
             ''The split names could not be parsed from the dataset config.'' (Some offline)),
      demo_state\<lparr>heap := (heap demo_state)(0 := blank_config)\<rparr>) \<and>
   get_dataset_config_info flaky_env
      (demo_info_args ''glue'' (PStr ''sst2'') None PNone) demo_state =
     (Inl offline, demo_state)"
proof -
  let ?a = "demo_info_args ''rotten_tomatoes'' PNone None PNone"
  let ?g = "demo_info_args ''glue'' (PStr ''sst2'') None PNone"
  let ?b0 = "\<lparr>info = \<lparr>description = ''rotten_tomatoes'', splits = None\<rparr>,
              base_path = ''rotten_tomatoes'', streaming = False\<rparr>"
  let ?s3 = "demo_state\<lparr>heap := (heap demo_state)(0 := blank_config)\<rparr>"
  have nk: "''name'' \<notin> set (dict_keys (ci_config_kwargs ?a))"
    by (simp add: demo_info_args_def dict_keys_def)
  have ng: "''name'' \<notin> set (dict_keys (ci_config_kwargs ?g))"
    by (simp add: demo_info_args_def dict_keys_def)
  have steps:
    "load_dataset_builder offline_env (builder_call_of ?a) demo_state = (Inr ?b0, demo_state) \<and>
     extend_dataset_builder_for_streaming offline_env ?b0 (ci_use_auth_token ?a) demo_state =
       (Inr (?b0\<lparr>streaming := True\<rparr>), demo_state) \<and>
     splits (info (?b0\<lparr>streaming := True\<rparr>)) = None \<and>
     ((case ci_download_config ?a of Some p \<Rightarrow> DownloadConfig_copy offline_env p
         | None \<Rightarrow> DownloadConfig_init offline_env) demo_state = (Inl offline, ?s3) \<or>
      (\<exists>c sc. (case ci_download_config ?a of Some p \<Rightarrow> DownloadConfig_copy offline_env p
                 | None \<Rightarrow> DownloadConfig_init offline_env) demo_state = (Inr c, sc) \<and>
         (StreamingDownloadManager offline_env (base_path (?b0\<lparr>streaming := True\<rparr>)) c
            (if ci_use_auth_token ?a \<noteq> PNone
             then sc\<lparr>heap := (heap sc)
                     (c := (heap sc c)\<lparr>use_auth_token := ci_use_auth_token ?a\<rparr>)\<rparr>
             else sc) = (Inl offline, ?s3) \<or>
          (\<exists>dlm sd. StreamingDownloadManager offline_env
               (base_path (?b0\<lparr>streaming := True\<rparr>)) c
            (if ci_use_auth_token ?a \<noteq> PNone
             then sc\<lparr>heap := (heap sc)
                     (c := (heap sc c)\<lparr>use_auth_token := ci_use_auth_token ?a\<rparr>)\<rparr>
             else sc) = (Inr dlm, sd) \<and>
             split_generators offline_env (?b0\<lparr>streaming := True\<rparr>) dlm sd
               = (Inl offline, ?s3)))))"
    by (simp add: offline_env_def demo_env_def demo_info_args_def builder_call_of_def ok_def
        raise_def)
  have fails: "load_dataset_builder flaky_env (builder_call_of ?g) demo_state
                 = (Inl offline, demo_state)"
    by (simp add: flaky_env_def demo_info_args_def builder_call_of_def raise_def)
  have exc: "isinstance offline Exception"
    by (simp add: isinstance_def offline_def issubclass.simps)
  from split_discovery_failure_translated[OF nk, of offline_env demo_state,
      THEN conjunct2, THEN conjunct2, rule_format, OF steps]
    split_discovery_failure_translated[OF ng, of flaky_env demo_state,
      THEN conjunct1, rule_format, OF fails]
    exc
  show ?thesis by simp
qed

text \<open>
  C2 as stated fails: a \<open>KeyboardInterrupt\<close> raised while the split generators are
  enumerated is not caught by \<^verbatim>\<open>except Exception\<close> and leaves the call as it is, not as a
  \<open>SplitsNotFoundError\<close>.
\<close>

theorem split_discovery_interrupt_counterexample:
  "split_generators interrupted_env
     \<lparr>info = \<lparr>description = ''rotten_tomatoes'', splits = None\<rparr>,
      base_path = ''rotten_tomatoes'', streaming = True\<rparr>
     \<lparr>dlm_base_path = ''rotten_tomatoes'', dlm_download_config = 0\<rparr>
     (demo_state\<lparr>heap := (heap demo_state)(0 := blank_config)\<rparr>) =
     (Inl interrupt, demo_state\<lparr>heap := (heap demo_state)(0 := blank_config)\<rparr>) \<and>
   get_dataset_config_info interrupted_env
      (demo_info_args ''rotten_tomatoes'' PNone None PNone) demo_state =
     (Inl interrupt, demo_state\<lparr>heap := (heap demo_state)(0 := blank_config)\<rparr>) \<and>
   exn_cls interrupt = KeyboardInterrupt \<and> exn_cause interrupt = None"
  by (simp add: get_dataset_config_info_def interrupted_env_def demo_env_def
      demo_info_args_def demo_state_def and_then_def ok_def raise_def
      try_except_Exception_def split_discovery_def builder_call_of_def dict_keys_def
      interrupt_def isinstance_def issubclass.simps)

section \<open>Properties of the configuration names\<close>

text \<open>
  C3. Let the factory resolve the identifier to the module \<open>dm\<close> and the import of its main
  class give \<open>cls\<close>. If \<open>cls\<close> declares configurations, \<^verbatim>\<open>get_dataset_config_names\<close>
  returns their names in the order of \<open>builder_configs\<close>, unsorted. If it declares none, the
  result has exactly one element: the value under \<^verbatim>\<open>"config_name"\<close> in the builder
  keywords of \<open>dm\<close>, or the string \<^verbatim>\<open>"default"\<close> when that key is absent.
\<close>

theorem get_dataset_config_names_declared_or_default:
  assumes "dataset_module_factory env (factory_call_of a) s = (Inr dm, s1)"
      and "import_main_class env (module_path dm) s1 = (Inr cls, s2)"
  shows "(builder_configs cls \<noteq> [] \<longrightarrow>
            get_dataset_config_names env a s =
              (Inr (map (\<lambda>(name, config). PStr name) (builder_configs cls)), s2)) \<and>
         (builder_configs cls = [] \<longrightarrow>
            (\<forall>v. map_of (builder_kwargs dm) ''config_name'' = Some v \<longrightarrow>
               get_dataset_config_names env a s = (Inr [v], s2)) \<and>
            (map_of (builder_kwargs dm) ''config_name'' = None \<longrightarrow>
               get_dataset_config_names env a s = (Inr [PStr ''default''], s2)))"
  using assms
  by (auto simp: get_dataset_config_names_def and_then_def ok_def dict_keys_def dict_get_def
      case_prod_unfold comp_def)

theorem get_dataset_config_names_declared_or_default_witness:
  "get_dataset_config_names demo_env (demo_names_args ''glue'') demo_state =
     (Inr [PStr ''cola'', PStr ''sst2'', PStr ''mrpc''], demo_state) \<and>
   get_dataset_config_names demo_env (demo_names_args ''rotten_tomatoes'') demo_state =
     (Inr [PStr ''default''], demo_state) \<and>
   get_dataset_config_names demo_env (demo_names_args ''data.csv'') demo_state =
     (Inr [PStr ''data''], demo_state)"
proof -
  have g: "dataset_module_factory demo_env (factory_call_of (demo_names_args ''glue'')) demo_state
             = (Inr \<lparr>module_path = ''glue.py'', builder_kwargs = []\<rparr>, demo_state)"
    by (simp add: demo_env_def factory_call_of_def demo_names_args_def copy_to_def)
  have gi: "import_main_class demo_env (module_path \<lparr>module_path = ''glue.py'', builder_kwargs = []\<rparr>)
              demo_state
             = (Inr \<lparr>builder_configs = [(''cola'', []), (''sst2'', []), (''mrpc'', [])]\<rparr>,
                demo_state)"
    by (simp add: demo_env_def ok_def)
  have r: "dataset_module_factory demo_env (factory_call_of (demo_names_args ''rotten_tomatoes''))
             demo_state
             = (Inr \<lparr>module_path = ''rotten_tomatoes.py'', builder_kwargs = []\<rparr>, demo_state)"
    by (simp add: demo_env_def factory_call_of_def demo_names_args_def copy_to_def)
  have ri: "import_main_class demo_env
              (module_path \<lparr>module_path = ''rotten_tomatoes.py'', builder_kwargs = []\<rparr>) demo_state
             = (Inr \<lparr>builder_configs = []\<rparr>, demo_state)"
    by (simp add: demo_env_def ok_def)
  have c: "dataset_module_factory demo_env (factory_call_of (demo_names_args ''data.csv''))
             demo_state
             = (Inr \<lparr>module_path = ''csv.py'',
                     builder_kwargs = [(''config_name'', PStr ''data'')]\<rparr>, demo_state)"
    by (simp add: demo_env_def factory_call_of_def demo_names_args_def copy_to_def)
  have ci: "import_main_class demo_env
              (module_path \<lparr>module_path = ''csv.py'',
                     builder_kwargs = [(''config_name'', PStr ''data'')]\<rparr>) demo_state
             = (Inr \<lparr>builder_configs = []\<rparr>, demo_state)"
    by (simp add: demo_env_def ok_def)
  from get_dataset_config_names_declared_or_default[OF g gi]
       get_dataset_config_names_declared_or_default[OF r ri]
       get_dataset_config_names_declared_or_default[OF c ci]
  show ?thesis by simp
qed

section \<open>Properties of the split names\<close>

lemma returned_info_has_splits:
  assumes "get_dataset_config_info env a s = (Inr i, s')"
  shows "\<exists>d. splits i = Some d"
proof -
  from get_dataset_config_info_Inr[OF assms] obtain b s2 where
    c: "if splits (info b) = None
        then \<exists>d. split_discovery env a b s2 = (Inr d, s') \<and> i = (info b)\<lparr>splits := Some d\<rparr>
        else i = info b \<and> s' = s2"
    by blast
  show ?thesis
  proof (cases "splits (info b) = None")
    case True
    with c obtain d where "i = (info b)\<lparr>splits := Some d\<rparr>" by auto
    then show ?thesis by simp
  next
    case False
    with c show ?thesis by auto
  qed
qed

text \<open>
  C6. Whenever \<^verbatim>\<open>get_dataset_config_info\<close> returns an info, its splits are a dictionary
  \<open>d\<close>, and \<^verbatim>\<open>get_dataset_split_names\<close>, called with the same arguments from the same
  state, returns the keys of \<open>d\<close> in the order of \<open>d\<close> and ends in the same state.
\<close>

theorem get_dataset_split_names_keys:
  assumes "get_dataset_config_info env a s = (Inr i, s')"
  shows "\<exists>d. splits i = Some d \<and>
           get_dataset_split_names env a s = (Inr (map fst d), s')"
proof -
  from returned_info_has_splits[OF assms] obtain d where "splits i = Some d" ..
  with assms show ?thesis
    by (simp add: get_dataset_split_names_def and_then_def ok_def dict_keys_def)
qed

theorem get_dataset_split_names_keys_witness:
  "get_dataset_split_names demo_env
      (demo_info_args ''rotten_tomatoes'' PNone None PNone) demo_state =
     (Inr [''train'', ''validation'', ''test''],
      demo_state\<lparr>heap := (heap demo_state)(0 := blank_config)\<rparr>)"
proof -
  have h: "get_dataset_config_info demo_env
      (demo_info_args ''rotten_tomatoes'' PNone None PNone) demo_state =
     (Inr \<lparr>description = ''rotten_tomatoes'',
            splits = Some
              [(''train'', [(''name'', PStr ''train''),
                            (''dataset_name'', PStr ''rotten_tomatoes'')]),
               (''validation'', [(''name'', PStr ''validation''),
                                 (''dataset_name'', PStr ''rotten_tomatoes'')]),
               (''test'', [(''name'', PStr ''test''),
                           (''dataset_name'', PStr ''rotten_tomatoes'')])]\<rparr>,
      demo_state\<lparr>heap := (heap demo_state)(0 := blank_config)\<rparr>)"
    by (simp add: get_dataset_config_info_def demo_env_def demo_info_args_def demo_state_def
        and_then_def ok_def raise_def try_except_Exception_def split_discovery_def
        builder_call_of_def dict_keys_def)
  from get_dataset_split_names_keys[OF h] show ?thesis by simp
qed

section \<open>The outcomes of the info of one configuration\<close>

lemma split_discovery_Inr_iff:
  "split_discovery env a b s = (Inr d, s') \<longleftrightarrow>
     (\<exists>c sc dlm sd gens.
        (case ci_download_config a of Some p \<Rightarrow> DownloadConfig_copy env p
           | None \<Rightarrow> DownloadConfig_init env) s = (Inr c, sc) \<and>
        StreamingDownloadManager env (base_path b) c
           (if ci_use_auth_token a \<noteq> PNone
            then sc\<lparr>heap := (heap sc)(c := (heap sc c)\<lparr>use_auth_token := ci_use_auth_token a\<rparr>)\<rparr>
            else sc) = (Inr dlm, sd) \<and>
        split_generators env b dlm sd = (Inr gens, s') \<and>
        d = splits_of (ci_path a) gens [])"
  by (auto simp: split_discovery_def and_then_def ok_def set_use_auth_token_def
      split: prod.splits sum.splits)

lemma get_dataset_config_info_Inl:
  assumes "get_dataset_config_info env a s = (Inl exc, s')"
  shows "''name'' \<in> set (dict_keys (ci_config_kwargs a)) \<and> exn_cls exc = TypeError \<and> s' = s \<or>
         load_dataset_builder env (builder_call_of a) s = (Inl exc, s') \<or>
         (\<exists>b0 s1. load_dataset_builder env (builder_call_of a) s = (Inr b0, s1) \<and>
            extend_dataset_builder_for_streaming env b0 (ci_use_auth_token a) s1 = (Inl exc, s')) \<or>
         (\<exists>b0 s1 b s2 err.
            load_dataset_builder env (builder_call_of a) s = (Inr b0, s1) \<and>
            extend_dataset_builder_for_streaming env b0 (ci_use_auth_token a) s1 = (Inr b, s2) \<and>
            splits (info b) = None \<and>
            split_discovery env a b s2 = (Inl err, s') \<and>
            (isinstance err Exception \<and> exc = splits_not_found err \<or>
             \<not> isinstance err Exception \<and> exc = err))"
proof (cases "''name'' \<in> set (dict_keys (ci_config_kwargs a))")
  case True
  with assms show ?thesis
    by (auto simp: get_dataset_config_info_def raise_def multiple_values_def)
next
  case nk: False
  obtain r1 s1 where l: "load_dataset_builder env (builder_call_of a) s = (r1, s1)"
    by (cases "load_dataset_builder env (builder_call_of a) s")
  show ?thesis
  proof (cases r1)
    case (Inl e)
    with assms nk l show ?thesis by (simp add: get_dataset_config_info_def and_then_def)
  next
    case (Inr b0)
    obtain r2 s2 where
      e: "extend_dataset_builder_for_streaming env b0 (ci_use_auth_token a) s1 = (r2, s2)"
      by (cases "extend_dataset_builder_for_streaming env b0 (ci_use_auth_token a) s1")
    show ?thesis
    proof (cases r2)
      case (Inl e2)
      with assms nk l Inr e show ?thesis
        by (simp add: get_dataset_config_info_def and_then_def)
    next
      case r2: (Inr b)
      note built = get_dataset_config_info_built[OF nk l[unfolded Inr] e[unfolded r2]]
      obtain r3 s3 where d: "split_discovery env a b s2 = (r3, s3)"
        by (cases "split_discovery env a b s2")
      from assms built d have n: "splits (info b) = None" by (auto split: if_splits)
      from assms built d n obtain err where r3: "r3 = Inl err" and s3: "s3 = s'"
        and x: "isinstance err Exception \<and> exc = splits_not_found err \<or>
                \<not> isinstance err Exception \<and> exc = err"
        by (cases r3) (auto split: if_splits)
      with l Inr e r2 n d show ?thesis by blast
    qed
  qed
qed

text \<open>
  C1 (amended). Every outcome of \<^verbatim>\<open>get_dataset_config_info\<close> is one of these. It returns an
  info: then the builder was loaded and extended for streaming, the info's splits are set,
  and either the builder's info already had splits and is returned as it is, or its splits
  were unset and the returned info is the builder's info with \<open>splits\<close> assigned the
  dictionary made from the split generators that the builder enumerated for the streaming
  download manager built on its base path and the copied (or new) download configuration.
  Or it raises: the \<open>TypeError\<close> of a second \<^verbatim>\<open>name\<close> keyword, the exception of the loader
  or of the streaming adaptation as it is, or, splits being unset and \<open>err\<close> raised in the
  split-discovery step, \<open>SplitsNotFoundError\<close> with cause \<open>err\<close> when \<open>err\<close> is an instance of
  \<open>Exception\<close> and \<open>err\<close> itself when it is not.
\<close>

theorem get_dataset_config_info_outcomes:
  "(\<forall>i s'. get_dataset_config_info env a s = (Inr i, s') \<longrightarrow>
      splits i \<noteq> None \<and>
      (\<exists>b0 s1 b s2.
         load_dataset_builder env (builder_call_of a) s = (Inr b0, s1) \<and>
         extend_dataset_builder_for_streaming env b0 (ci_use_auth_token a) s1 = (Inr b, s2) \<and>
         (splits (info b) \<noteq> None \<and> i = info b \<and> s' = s2 \<or>
          splits (info b) = None \<and>
          (\<exists>c sc dlm sd gens.
             (case ci_download_config a of Some p \<Rightarrow> DownloadConfig_copy env p
                | None \<Rightarrow> DownloadConfig_init env) s2 = (Inr c, sc) \<and>
             StreamingDownloadManager env (base_path b) c
               (if ci_use_auth_token a \<noteq> PNone
                then sc\<lparr>heap := (heap sc)
                        (c := (heap sc c)\<lparr>use_auth_token := ci_use_auth_token a\<rparr>)\<rparr>
                else sc) = (Inr dlm, sd) \<and>
             split_generators env b dlm sd = (Inr gens, s') \<and>
             i = (info b)\<lparr>splits := Some (splits_of (ci_path a) gens [])\<rparr>)))) \<and>
   (\<forall>exc s'. get_dataset_config_info env a s = (Inl exc, s') \<longrightarrow>
      ''name'' \<in> set (dict_keys (ci_config_kwargs a)) \<and> exn_cls exc = TypeError \<and> s' = s \<or>
      load_dataset_builder env (builder_call_of a) s = (Inl exc, s') \<or>
      (\<exists>b0 s1. load_dataset_builder env (builder_call_of a) s = (Inr b0, s1) \<and>
         extend_dataset_builder_for_streaming env b0 (ci_use_auth_token a) s1 = (Inl exc, s')) \<or>
      (\<exists>b0 s1 b s2 err.
         load_dataset_builder env (builder_call_of a) s = (Inr b0, s1) \<and>
         extend_dataset_builder_for_streaming env b0 (ci_use_auth_token a) s1 = (Inr b, s2) \<and>
         splits (info b) = None \<and>
         ((case ci_download_config a of Some p \<Rightarrow> DownloadConfig_copy env p
             | None \<Rightarrow> DownloadConfig_init env) s2 = (Inl err, s') \<or>
          (\<exists>c sc. (case ci_download_config a of Some p \<Rightarrow> DownloadConfig_copy env p
                     | None \<Rightarrow> DownloadConfig_init env) s2 = (Inr c, sc) \<and>
             (StreamingDownloadManager env (base_path b) c
                (if ci_use_auth_token a \<noteq> PNone
                 then sc\<lparr>heap := (heap sc)
                         (c := (heap sc c)\<lparr>use_auth_token := ci_use_auth_token a\<rparr>)\<rparr>
                 else sc) = (Inl err, s') \<or>
              (\<exists>dlm sd. StreamingDownloadManager env (base_path b) c
                (if ci_use_auth_token a \<noteq> PNone
                 then sc\<lparr>heap := (heap sc)
                         (c := (heap sc c)\<lparr>use_auth_token := ci_use_auth_token a\<rparr>)\<rparr>
                 else sc) = (Inr dlm, sd) \<and>
                 split_generators env b dlm sd = (Inl err, s'))))) \<and>
         (isinstance err Exception \<and>
            exc = Exn SplitsNotFoundError
                    ''The split names could not be parsed from the dataset config.'' (Some err) \<or>
          \<not> isinstance err Exception \<and> exc = err)))"
proof (intro conjI allI impI)
  fix i s'
  assume r: "get_dataset_config_info env a s = (Inr i, s')"
  from returned_info_has_splits[OF r] show "splits i \<noteq> None" by auto
  from get_dataset_config_info_Inr[OF r] obtain b0 s1 b s2 where
    l: "load_dataset_builder env (builder_call_of a) s = (Inr b0, s1)" and
    e: "extend_dataset_builder_for_streaming env b0 (ci_use_auth_token a) s1 = (Inr b, s2)" and
    c: "if splits (info b) = None
        then \<exists>d. split_discovery env a b s2 = (Inr d, s') \<and> i = (info b)\<lparr>splits := Some d\<rparr>
        else i = info b \<and> s' = s2"
    by blast
  show "\<exists>b0 s1 b s2.
         load_dataset_builder env (builder_call_of a) s = (Inr b0, s1) \<and>
         extend_dataset_builder_for_streaming env b0 (ci_use_auth_token a) s1 = (Inr b, s2) \<and>
         (splits (info b) \<noteq> None \<and> i = info b \<and> s' = s2 \<or>
          splits (info b) = None \<and>
          (\<exists>c sc dlm sd gens.
             (case ci_download_config a of Some p \<Rightarrow> DownloadConfig_copy env p
                | None \<Rightarrow> DownloadConfig_init env) s2 = (Inr c, sc) \<and>
             StreamingDownloadManager env (base_path b) c
               (if ci_use_auth_token a \<noteq> PNone
                then sc\<lparr>heap := (heap sc)
                        (c := (heap sc c)\<lparr>use_auth_token := ci_use_auth_token a\<rparr>)\<rparr>
                else sc) = (Inr dlm, sd) \<and>
             split_generators env b dlm sd = (Inr gens, s') \<and>
             i = (info b)\<lparr>splits := Some (splits_of (ci_path a) gens [])\<rparr>))"
  proof (cases "splits (info b) = None")
    case True
    with c obtain d where d: "split_discovery env a b s2 = (Inr d, s')"
      and i: "i = (info b)\<lparr>splits := Some d\<rparr>" by auto
    from d[unfolded split_discovery_Inr_iff] i True l e show ?thesis by blast
  next
    case False
    with c have "i = info b \<and> s' = s2" by simp
    with False l e show ?thesis by blast
  qed
next
  fix exc s'
  assume r: "get_dataset_config_info env a s = (Inl exc, s')"
  from get_dataset_config_info_Inl[OF r]
  show "''name'' \<in> set (dict_keys (ci_config_kwargs a)) \<and> exn_cls exc = TypeError \<and> s' = s \<or>
      load_dataset_builder env (builder_call_of a) s = (Inl exc, s') \<or>
      (\<exists>b0 s1. load_dataset_builder env (builder_call_of a) s = (Inr b0, s1) \<and>
         extend_dataset_builder_for_streaming env b0 (ci_use_auth_token a) s1 = (Inl exc, s')) \<or>
      (\<exists>b0 s1 b s2 err.
         load_dataset_builder env (builder_call_of a) s = (Inr b0, s1) \<and>
         extend_dataset_builder_for_streaming env b0 (ci_use_auth_token a) s1 = (Inr b, s2) \<and>
         splits (info b) = None \<and>
         ((case ci_download_config a of Some p \<Rightarrow> DownloadConfig_copy env p
             | None \<Rightarrow> DownloadConfig_init env) s2 = (Inl err, s') \<or>
          (\<exists>c sc. (case ci_download_config a of Some p \<Rightarrow> DownloadConfig_copy env p
                     | None \<Rightarrow> DownloadConfig_init env) s2 = (Inr c, sc) \<and>
             (StreamingDownloadManager env (base_path b) c
                (if ci_use_auth_token a \<noteq> PNone
                 then sc\<lparr>heap := (heap sc)
                         (c := (heap sc c)\<lparr>use_auth_token := ci_use_auth_token a\<rparr>)\<rparr>
                 else sc) = (Inl err, s') \<or>
              (\<exists>dlm sd. StreamingDownloadManager env (base_path b) c
                (if ci_use_auth_token a \<noteq> PNone
                 then sc\<lparr>heap := (heap sc)
                         (c := (heap sc c)\<lparr>use_auth_token := ci_use_auth_token a\<rparr>)\<rparr>
                 else sc) = (Inr dlm, sd) \<and>
                 split_generators env b dlm sd = (Inl err, s'))))) \<and>
         (isinstance err Exception \<and>
            exc = Exn SplitsNotFoundError
                    ''The split names could not be parsed from the dataset config.'' (Some err) \<or>
          \<not> isinstance err Exception \<and> exc = err))"
    unfolding split_discovery_Inl_iff splits_not_found_def by blast
qed


theorem get_dataset_config_info_outcomes_witness:
  "get_dataset_config_info demo_env
      (demo_info_args ''rotten_tomatoes'' PNone None PNone) demo_state =
     (Inr (demo_info ''rotten_tomatoes''), demo_state_after) \<and>
   splits (demo_info ''rotten_tomatoes'') \<noteq> None \<and>
   get_dataset_config_info prepared_env
      (demo_info_args ''rotten_tomatoes'' PNone None PNone) demo_state =
     (Inr \<lparr>description = ''rotten_tomatoes'', splits = Some [(''train'', [])]\<rparr>,
      demo_state) \<and>
   splits \<lparr>description = ''rotten_tomatoes'', splits = Some [(''train'', [])]\<rparr> \<noteq> None \<and>
   get_dataset_config_info offline_env
      (demo_info_args ''rotten_tomatoes'' PNone None PNone) demo_state =
     (Inl (splits_not_found offline), demo_state_after)"
proof -
  let ?a = "demo_info_args ''rotten_tomatoes'' PNone None PNone"
  have h: "get_dataset_config_info demo_env ?a demo_state =
             (Inr (demo_info ''rotten_tomatoes''), demo_state_after)"
    by (simp add: get_dataset_config_info_def demo_env_def demo_info_args_def demo_state_def
        and_then_def ok_def raise_def try_except_Exception_def split_discovery_def
        builder_call_of_def dict_keys_def demo_info_def demo_state_after_def)
  have k: "get_dataset_config_info prepared_env ?a demo_state =
     (Inr \<lparr>description = ''rotten_tomatoes'', splits = Some [(''train'', [])]\<rparr>,
      demo_state)"
    by (simp add: get_dataset_config_info_def prepared_env_def demo_env_def
        demo_info_args_def and_then_def ok_def builder_call_of_def dict_keys_def)
  have x: "isinstance offline Exception"
    by (simp add: isinstance_def offline_def issubclass.simps)
  have o: "get_dataset_config_info offline_env ?a demo_state =
             (Inl (splits_not_found offline), demo_state_after)"
    using x
    by (simp add: get_dataset_config_info_def offline_env_def demo_env_def
        demo_info_args_def demo_state_def and_then_def ok_def raise_def
        try_except_Exception_def split_discovery_def builder_call_of_def dict_keys_def
        demo_state_after_def)
  note t1 = get_dataset_config_info_outcomes[of demo_env ?a demo_state,
      THEN conjunct1, rule_format, OF h, THEN conjunct1]
  note t2 = get_dataset_config_info_outcomes[of prepared_env ?a demo_state,
      THEN conjunct1, rule_format, OF k, THEN conjunct1]
  note t3 = get_dataset_config_info_outcomes[of offline_env ?a demo_state,
      THEN conjunct2, rule_format, OF o]
  from h k o t1 t2 t3 show ?thesis by blast
qed

text \<open>
  C1 as stated fails: the builder is loaded with unset splits, and the call neither
  returns an info nor raises \<open>SplitsNotFoundError\<close>; the \<open>KeyboardInterrupt\<close> of the
  enumeration leaves it.
\<close>

theorem get_dataset_config_info_interrupt_counterexample:
  "load_dataset_builder interrupted_env
      (builder_call_of (demo_info_args ''glue'' (PStr ''cola'') None PNone)) demo_state =
     (Inr \<lparr>info = \<lparr>description = ''glue'', splits = None\<rparr>,
           base_path = ''glue'', streaming = False\<rparr>, demo_state) \<and>
   get_dataset_config_info interrupted_env
      (demo_info_args ''glue'' (PStr ''cola'') None PNone) demo_state =
     (Inl (Exn KeyboardInterrupt [] None), demo_state_after) \<and>
   KeyboardInterrupt \<noteq> SplitsNotFoundError"
  by (simp add: get_dataset_config_info_def interrupted_env_def demo_env_def
      demo_info_args_def demo_state_def and_then_def ok_def raise_def
      try_except_Exception_def split_discovery_def builder_call_of_def dict_keys_def
      interrupt_def isinstance_def issubclass.simps demo_state_after_def)

section \<open>Properties of the infos of all configurations\<close>

lemma config_info_call_plain:
  "''config_name'' \<notin> set (dict_keys (di_config_kwargs a)) \<Longrightarrow>
     config_info_call env a n = get_dataset_config_info env (info_call_of a n)"
  by (simp add: config_info_call_def)

lemma infos_of_in_turn:
  assumes "''config_name'' \<notin> set (dict_keys (di_config_kwargs a))"
  shows "infos_of env a names acc s =
           (case config_infos_in_turn env a names s of
              (Inl e, s') \<Rightarrow> (Inl e, s')
            | (Inr is, s') \<Rightarrow>
                (Inr (fold (\<lambda>(n, i) d. dict_setitem d n i) (zip names is) acc), s'))"
  by (induction names arbitrary: acc s)
     (auto simp: config_info_call_plain[OF assms] split: prod.splits sum.splits)

lemma config_infos_in_turn_first_failure:
  "config_infos_in_turn env a pre s = (Inr is, s2) \<Longrightarrow>
   get_dataset_config_info env (info_call_of a n) s2 = (Inl e, s3) \<Longrightarrow>
   config_infos_in_turn env a (pre @ n # post) s = (Inl e, s3)"
  by (induction pre arbitrary: s "is") (auto split: prod.splits sum.splits)

lemma get_dataset_infos_first_failure:
  assumes "''config_name'' \<notin> set (dict_keys (di_config_kwargs a))"
      and "get_dataset_config_names env (names_call_of a) s = (Inr (pre @ n # post), s1)"
      and "config_infos_in_turn env a pre s1 = (Inr is, s2)"
      and "get_dataset_config_info env (info_call_of a n) s2 = (Inl e, s3)"
  shows "get_dataset_infos env a s = (Inl e, s3)"
  using assms(2) config_infos_in_turn_first_failure[OF assms(3,4), of post]
  by (simp add: get_dataset_infos_def and_then_def infos_of_in_turn[OF assms(1)])

text \<open>
  C7. Let no keyword of \<^verbatim>\<open>**config_kwargs\<close> be \<^verbatim>\<open>config_name\<close>. An exception of the
  enumeration of the names leaves \<^verbatim>\<open>get_dataset_infos\<close> as it is. If the names are
  \<open>pre @ n # post\<close>, the lookups of \<open>pre\<close> succeed and \<^verbatim>\<open>get_dataset_config_info\<close> raises
  \<open>e\<close> for \<open>n\<close>, then \<^verbatim>\<open>get_dataset_infos\<close> raises \<open>e\<close>, in the state that lookup left: it
  returns no dictionary, the names of \<open>post\<close> are not looked up, and nothing is caught.
\<close>

theorem get_dataset_infos_aborts:
  assumes "''config_name'' \<notin> set (dict_keys (di_config_kwargs a))"
  shows "(\<forall>e s1. get_dataset_config_names env (names_call_of a) s = (Inl e, s1) \<longrightarrow>
            get_dataset_infos env a s = (Inl e, s1)) \<and>
         (\<forall>pre n post s1 is s2 e s3.
            get_dataset_config_names env (names_call_of a) s = (Inr (pre @ n # post), s1) \<and>
            config_infos_in_turn env a pre s1 = (Inr is, s2) \<and>
            get_dataset_config_info env (info_call_of a n) s2 = (Inl e, s3) \<longrightarrow>
            get_dataset_infos env a s = (Inl e, s3))"
proof (intro conjI allI impI)
  fix e s1
  assume "get_dataset_config_names env (names_call_of a) s = (Inl e, s1)"
  then show "get_dataset_infos env a s = (Inl e, s1)"
    by (simp add: get_dataset_infos_def and_then_def)
next
  fix pre n post s1 "is" s2 e s3
  assume "get_dataset_config_names env (names_call_of a) s = (Inr (pre @ n # post), s1) \<and>
          config_infos_in_turn env a pre s1 = (Inr is, s2) \<and>
          get_dataset_config_info env (info_call_of a n) s2 = (Inl e, s3)"
  then show "get_dataset_infos env a s = (Inl e, s3)"
    using get_dataset_infos_first_failure[OF assms] by blast
qed

theorem get_dataset_infos_aborts_witness:
  "get_dataset_infos flaky_env (demo_infos_args ''glue'') demo_state =
     (Inl offline, demo_state_after)"
proof -
  let ?a = "demo_infos_args ''glue''"
  have nk: "''config_name'' \<notin> set (dict_keys (di_config_kwargs ?a))"
    by (simp add: demo_infos_args_def dict_keys_def)
  have steps:
    "get_dataset_config_names flaky_env (names_call_of ?a) demo_state =
       (Inr ([PStr ''cola''] @ PStr ''sst2'' # [PStr ''mrpc'']), demo_state) \<and>
     config_infos_in_turn flaky_env ?a [PStr ''cola''] demo_state =
       (Inr [demo_info ''glue''], demo_state_after) \<and>
     get_dataset_config_info flaky_env (info_call_of ?a (PStr ''sst2'')) demo_state_after =
       (Inl offline, demo_state_after)"
    by (simp add: get_dataset_config_names_def get_dataset_config_info_def flaky_env_def
        demo_env_def demo_infos_args_def demo_state_def names_call_of_def info_call_of_def
        factory_call_of_def copy_to_def and_then_def ok_def raise_def
        try_except_Exception_def split_discovery_def builder_call_of_def dict_keys_def
        demo_info_def demo_state_after_def)
  from get_dataset_infos_aborts[OF nk, of flaky_env demo_state, THEN conjunct2, rule_format,
      OF steps]
  show ?thesis .
qed

text \<open>
  C4. \<^verbatim>\<open>get_dataset_infos\<close> passes \<^verbatim>\<open>use_auth_token\<close> to every lookup but not to the
  enumeration of the names. On a Hub that resolves by the token, the names that
  \<^verbatim>\<open>get_dataset_config_names\<close> returns with the token are not the keys of the dictionary
  that \<^verbatim>\<open>get_dataset_infos\<close> returns with the same token; and for a repository found only
  with the token, the names are returned while \<^verbatim>\<open>get_dataset_infos\<close> raises.
\<close>

theorem get_dataset_infos_enumerates_without_token:
  "fst (get_dataset_config_names token_env (token_names_args ''org/gated'') demo_state) =
     Inr [PStr ''full''] \<and>
   fst (get_dataset_infos token_env (token_infos_args ''org/gated'') demo_state) =
     Inr [(PStr ''preview'', demo_info ''org/gated'')] \<and>
   fst (get_dataset_config_names token_env (token_names_args ''org/private'') demo_state) =
     Inr [PStr ''default''] \<and>
   fst (get_dataset_infos token_env (token_infos_args ''org/private'') demo_state) =
     Inl (Exn FileNotFoundError ''no such dataset'' None)"
  by (simp add: get_dataset_infos_def get_dataset_config_names_def config_info_call_def
      get_dataset_config_info_def token_env_def demo_env_def token_infos_args_def
      token_names_args_def has_token_def demo_state_def names_call_of_def info_call_of_def
      factory_call_of_def and_then_def ok_def raise_def try_except_Exception_def
      split_discovery_def builder_call_of_def dict_keys_def dict_get_def demo_info_def
      set_use_auth_token_def)

section \<open>The class of the split-discovery failure\<close>



section \<open>Properties of the inspection functions\<close>

lemma inspect_dataset_message_mentions:
  "\<exists>u v w. inspect_dataset_message path local_path mpath = u @ path @ v @ mpath @ w"
  unfolding inspect_dataset_message_def
  by (metis append.assoc)

lemma inspect_metric_message_mentions:
  "\<exists>u v w. inspect_metric_message path local_path mpath = u @ path @ v @ mpath @ w"
  unfolding inspect_metric_message_def
  by (metis append.assoc)

text \<open>
  C8. Let no keyword of \<^verbatim>\<open>**download_kwargs\<close> be \<^verbatim>\<open>force_local_path\<close>. \<^verbatim>\<open>inspect_dataset\<close>
  and \<^verbatim>\<open>inspect_metric\<close> call their factory with \<^verbatim>\<open>force_local_path=local_path\<close>. If the
  factory raises, the same exception leaves the function in the state the factory left:
  nothing is printed. If the factory returns a module, the function returns nothing, and
  its final state is the state the factory left with one more printed line, the message,
  which holds the path and the module path.
\<close>

theorem inspect_effects:
  assumes "''force_local_path'' \<notin> set (dict_keys download_kwargs)"
  shows "fc_force_local_path (forced_local_call path local_path download_config download_kwargs)
           = Some local_path \<and>
         (\<forall>e s1. dataset_module_factory env
                    (forced_local_call path local_path download_config download_kwargs) s
                    = (Inl e, s1) \<longrightarrow>
            inspect_dataset env path local_path download_config download_kwargs s = (Inl e, s1)) \<and>
         (\<forall>m s1. dataset_module_factory env
                    (forced_local_call path local_path download_config download_kwargs) s
                    = (Inr m, s1) \<longrightarrow>
            inspect_dataset env path local_path download_config download_kwargs s =
              (Inr (), s1\<lparr>stdout := stdout s1 @
                 [inspect_dataset_message path local_path (module_path m)]\<rparr>) \<and>
            (\<exists>u v w. inspect_dataset_message path local_path (module_path m) =
               u @ path @ v @ module_path m @ w)) \<and>
         (\<forall>e s1. metric_module_factory env
                    (forced_local_call path local_path download_config download_kwargs) s
                    = (Inl e, s1) \<longrightarrow>
            inspect_metric env path local_path download_config download_kwargs s = (Inl e, s1)) \<and>
         (\<forall>m s1. metric_module_factory env
                    (forced_local_call path local_path download_config download_kwargs) s
                    = (Inr m, s1) \<longrightarrow>
            inspect_metric env path local_path download_config download_kwargs s =
              (Inr (), s1\<lparr>stdout := stdout s1 @
                 [inspect_metric_message path local_path (metric_module_path m)]\<rparr>) \<and>
            (\<exists>u v w. inspect_metric_message path local_path (metric_module_path m) =
               u @ path @ v @ metric_module_path m @ w))"
proof -
  let ?c = "forced_local_call path local_path download_config download_kwargs"
  have a: "fc_force_local_path ?c = Some local_path"
    by (simp add: forced_local_call_def)
  have b: "\<forall>e s1. dataset_module_factory env ?c s = (Inl e, s1) \<longrightarrow>
             inspect_dataset env path local_path download_config download_kwargs s = (Inl e, s1)"
    using assms by (simp add: inspect_dataset_def and_then_def)
  have c: "\<forall>m s1. dataset_module_factory env ?c s = (Inr m, s1) \<longrightarrow>
             inspect_dataset env path local_path download_config download_kwargs s =
               (Inr (), s1\<lparr>stdout := stdout s1 @
                  [inspect_dataset_message path local_path (module_path m)]\<rparr>) \<and>
             (\<exists>u v w. inspect_dataset_message path local_path (module_path m) =
                u @ path @ v @ module_path m @ w)"
    using assms inspect_dataset_message_mentions
    by (simp add: inspect_dataset_def and_then_def print_def)
  have d: "\<forall>e s1. metric_module_factory env ?c s = (Inl e, s1) \<longrightarrow>
             inspect_metric env path local_path download_config download_kwargs s = (Inl e, s1)"
    using assms by (simp add: inspect_metric_def and_then_def)
  have e: "\<forall>m s1. metric_module_factory env ?c s = (Inr m, s1) \<longrightarrow>
             inspect_metric env path local_path download_config download_kwargs s =
               (Inr (), s1\<lparr>stdout := stdout s1 @
                  [inspect_metric_message path local_path (metric_module_path m)]\<rparr>) \<and>
             (\<exists>u v w. inspect_metric_message path local_path (metric_module_path m) =
                u @ path @ v @ metric_module_path m @ w)"
    using assms inspect_metric_message_mentions
    by (simp add: inspect_metric_def and_then_def print_def)
  from a b c d e show ?thesis by (intro conjI)
qed

theorem inspect_effects_witness:
  "inspect_dataset demo_env ''glue'' ''/tmp/glue'' None [] demo_state =
     (Inr (), demo_state\<lparr>world := [''/tmp/glue''],
        stdout := [inspect_dataset_message ''glue'' ''/tmp/glue'' ''glue.py'']\<rparr>) \<and>
   inspect_dataset demo_env ''nowhere'' ''/tmp/x'' None [] demo_state =
     (Inl (Exn FileNotFoundError ''no such dataset'' None), demo_state) \<and>
   inspect_metric demo_env ''accuracy'' ''/tmp/acc'' None [] demo_state =
     (Inr (), demo_state\<lparr>world := [''/tmp/acc''],
        stdout := [inspect_metric_message ''accuracy'' ''/tmp/acc'' ''accuracy.py'']\<rparr>) \<and>
   inspect_metric demo_env ''nowhere'' ''/tmp/x'' None [] demo_state =
     (Inl (Exn FileNotFoundError ''no such metric'' None), demo_state)"
proof -
  have nk: "''force_local_path'' \<notin> set (dict_keys ([] :: kwargs))"
    by (simp add: dict_keys_def)
  have d: "dataset_module_factory demo_env (forced_local_call ''glue'' ''/tmp/glue'' None [])
             demo_state
           = (Inr \<lparr>module_path = ''glue.py'', builder_kwargs = []\<rparr>,
              demo_state\<lparr>world := [''/tmp/glue'']\<rparr>)"
    by (simp add: demo_env_def forced_local_call_def copy_to_def demo_state_def)
  have dn: "dataset_module_factory demo_env (forced_local_call ''nowhere'' ''/tmp/x'' None [])
             demo_state
           = (Inl (Exn FileNotFoundError ''no such dataset'' None), demo_state)"
    by (simp add: demo_env_def forced_local_call_def)
  have m: "metric_module_factory demo_env (forced_local_call ''accuracy'' ''/tmp/acc'' None [])
             demo_state
           = (Inr \<lparr>metric_module_path = ''accuracy.py''\<rparr>,
              demo_state\<lparr>world := [''/tmp/acc'']\<rparr>)"
    by (simp add: demo_env_def forced_local_call_def copy_to_def demo_state_def)
  have mn: "metric_module_factory demo_env (forced_local_call ''nowhere'' ''/tmp/x'' None [])
             demo_state
           = (Inl (Exn FileNotFoundError ''no such metric'' None), demo_state)"
    by (simp add: demo_env_def forced_local_call_def)
  note t = inspect_effects[OF nk]
  have 1: "inspect_dataset demo_env ''nowhere'' ''/tmp/x'' None [] demo_state =
     (Inl (Exn FileNotFoundError ''no such dataset'' None), demo_state)"
    using t[of "''nowhere''" "''/tmp/x''" None demo_env demo_state,
        THEN conjunct2, THEN conjunct1, rule_format, OF dn] .
  have 2: "inspect_metric demo_env ''nowhere'' ''/tmp/x'' None [] demo_state =
     (Inl (Exn FileNotFoundError ''no such metric'' None), demo_state)"
    using t[of "''nowhere''" "''/tmp/x''" None demo_env demo_state,
        THEN conjunct2, THEN conjunct2, THEN conjunct2, THEN conjunct1, rule_format, OF mn] .
  have 3: "inspect_dataset demo_env ''glue'' ''/tmp/glue'' None [] demo_state =
     (Inr (), demo_state\<lparr>world := [''/tmp/glue''],
        stdout := [inspect_dataset_message ''glue'' ''/tmp/glue'' ''glue.py'']\<rparr>)"
    using t[of "''glue''" "''/tmp/glue''" None demo_env demo_state,
        THEN conjunct2, THEN conjunct2, THEN conjunct1, rule_format, OF d, THEN conjunct1]
    by (simp add: demo_state_def)
  have 4: "inspect_metric demo_env ''accuracy'' ''/tmp/acc'' None [] demo_state =
     (Inr (), demo_state\<lparr>world := [''/tmp/acc''],
        stdout := [inspect_metric_message ''accuracy'' ''/tmp/acc'' ''accuracy.py'']\<rparr>)"
    using t[of "''accuracy''" "''/tmp/acc''" None demo_env demo_state,
        THEN conjunct2, THEN conjunct2, THEN conjunct2, THEN conjunct2, rule_format, OF m,
        THEN conjunct1]
    by (simp add: demo_state_def)
  from 1 2 3 4 show ?thesis by simp
qed

section \<open>The caller's download configuration\<close>










end
